theory Spec2Isabelle
  imports Complex_Main "HOL-Library.Log_Nat"
begin

section \<open>Python values, exceptions and the observable world\<close>

text \<open>
  The orchestrator of \<^verbatim>\<open>gui/process.py\<close> receives its arguments as a keyword dictionary
  and reads its configuration through \<^verbatim>\<open>settings.load(key)\<close>. A value is one of the
  Python objects such a dictionary holds. A float argument is never computed with, only
  passed to \<^verbatim>\<open>str()\<close>, so it is held as the text \<^verbatim>\<open>str()\<close> returns for it
  (\<^verbatim>\<open>2.0\<close> is \<open>PFloat ''2.0''\<close>).
\<close>

datatype pyval =
    PNone
  | PBool bool
  | PInt int
  | PFloat string
  | PStr string

text \<open>
  Exceptions deriving from \<^verbatim>\<open>Exception\<close>, each with the text \<^verbatim>\<open>str(error)\<close> returns
  (CPython 3.11 wording for the interpreter's own). \<open>CalledProcessError\<close> carries the
  return code and the captured standard error of the child process.
\<close>

datatype error =
    UnboundLocalError string
  | ZeroDivisionError string
  | TypeError string
  | FileNotFoundError string
  | OSError string
  | CalledProcessError int string
  | CollaboratorError string

fun str_nat :: "nat \<Rightarrow> string" where
  "str_nat n =
     (if n < 10 then [''0123456789'' ! n]
      else str_nat (n div 10) @ [''0123456789'' ! (n mod 10)])"

declare str_nat.simps [simp del]

definition str_int :: "int \<Rightarrow> string" where
  "str_int i = (if i < 0 then ''-'' @ str_nat (nat (- i)) else str_nat (nat i))"

fun error_text :: "error \<Rightarrow> string" where
  "error_text (UnboundLocalError m) = m"
| "error_text (ZeroDivisionError m) = m"
| "error_text (TypeError m) = m"
| "error_text (FileNotFoundError m) = m"
| "error_text (OSError m) = m"
| "error_text (CalledProcessError rc err) =
     ''Command returned non-zero exit status '' @ str_int rc @ ''.''"
| "error_text (CollaboratorError m) = m"

fun py_str :: "pyval \<Rightarrow> string" where
  "py_str PNone = ''None''"
| "py_str (PBool b) = (if b then ''True'' else ''False'')"
| "py_str (PInt i) = str_int i"
| "py_str (PFloat r) = r"
| "py_str (PStr s) = s"

fun truthy :: "pyval \<Rightarrow> bool" where
  "truthy PNone = False"
| "truthy (PBool b) = b"
| "truthy (PInt i) = (i \<noteq> 0)"
| "truthy (PFloat r) = (r \<noteq> ''0.0'' \<and> r \<noteq> ''-0.0'')"
| "truthy (PStr s) = (s \<noteq> [])"

fun type_name :: "pyval \<Rightarrow> string" where
  "type_name PNone = ''NoneType''"
| "type_name (PBool b) = ''bool''"
| "type_name (PInt i) = ''int''"
| "type_name (PFloat r) = ''float''"
| "type_name (PStr s) = ''str''"

definition squote :: "string \<Rightarrow> string" where
  "squote s = [CHR 0x27] @ s @ [CHR 0x27]"

definition dquote :: "string \<Rightarrow> string" where
  "dquote s = [CHR 0x22] @ s @ [CHR 0x22]"

text \<open>\<^verbatim>\<open>v + "suffix"\<close>: concatenation when \<open>v\<close> is a string, a TypeError otherwise.\<close>

fun add_str :: "pyval \<Rightarrow> string \<Rightarrow> error + string" where
  "add_str (PStr s) t = Inr (s @ t)"
| "add_str v t =
     Inl (TypeError (''unsupported operand type(s) for +: '' @ squote (type_name v)
                     @ '' and '' @ squote ''str''))"

text \<open>\<^verbatim>\<open>"prefix" + v\<close>.\<close>

fun str_add :: "string \<Rightarrow> pyval \<Rightarrow> error + string" where
  "str_add t (PStr s) = Inr (t @ s)"
| "str_add t v =
     Inl (TypeError (''can only concatenate str (not '' @ dquote (type_name v)
                     @ '') to str''))"

definition endswith :: "string \<Rightarrow> string \<Rightarrow> bool" where
  "endswith s suf \<longleftrightarrow>
     length suf \<le> length s \<and> drop (length s - length suf) s = suf"

text \<open>\<^verbatim>\<open>kwargs.get(key, default)\<close> on a keyword dictionary.\<close>

type_synonym kwargs = "string \<Rightarrow> pyval option"

definition kwargs_get :: "kwargs \<Rightarrow> string \<Rightarrow> pyval \<Rightarrow> pyval" where
  "kwargs_get kw k d = (case kw k of None \<Rightarrow> d | Some v \<Rightarrow> v)"

text \<open>
  What a run does to its surroundings: the calls of \<^verbatim>\<open>status_func\<close> (percentage and
  message), the keys passed to \<^verbatim>\<open>settings.load\<close>, the four settings arguments of every
  \<^verbatim>\<open>detector.run\<close> call, the argument vectors handed to \<^verbatim>\<open>subprocess.run\<close>, the lines
  printed, and the directories that exist.
\<close>

record world =
  status_log :: "(rat \<times> string) list"
  settings_keys :: "string list"
  detector_args :: "(pyval \<times> pyval \<times> pyval \<times> pyval) list"
  launched :: "string list list"
  console :: "string list"
  fs_dirs :: "string set"

text \<open>
  A statement of the program takes the world and returns either the exception it raised
  or its value, with the world as it left it.
\<close>

type_synonym 'a prog = "world \<Rightarrow> (error + 'a) \<times> world"

definition ret :: "'a \<Rightarrow> 'a prog" where
  "ret x w = (Inr x, w)"

definition raise :: "error \<Rightarrow> 'a prog" where
  "raise e w = (Inl e, w)"

definition lift :: "error + 'a \<Rightarrow> 'a prog" where
  "lift r w = (r, w)"

definition bind :: "'a prog \<Rightarrow> ('a \<Rightarrow> 'b prog) \<Rightarrow> 'b prog" where
  "bind m f w = (case m w of (Inl e, w') \<Rightarrow> (Inl e, w') | (Inr x, w') \<Rightarrow> f x w')"

text \<open>\<^verbatim>\<open>try: m except <handled classes> as e: handler(e)\<close>.\<close>

definition try_except :: "'a prog \<Rightarrow> (error \<Rightarrow> 'a prog option) \<Rightarrow> 'a prog" where
  "try_except m h w =
     (case m w of
        (Inl e, w') \<Rightarrow> (case h e of None \<Rightarrow> (Inl e, w') | Some k \<Rightarrow> k w')
      | (Inr x, w') \<Rightarrow> (Inr x, w'))"

definition status_func :: "rat \<Rightarrow> string \<Rightarrow> unit prog" where
  "status_func p msg w = (Inr (), w\<lparr>status_log := status_log w @ [(p, msg)]\<rparr>)"

definition print :: "string \<Rightarrow> unit prog" where
  "print line w = (Inr (), w\<lparr>console := console w @ [line]\<rparr>)"

section \<open>Binary floating point\<close>

text \<open>
  The percentage is a Python float. A float is modelled as the rational it denotes, and
  every arithmetic operation rounds its exact result to the nearest number with a 53-bit
  significand, ties to even, as IEEE 754 binary64 does. The exponent is left unbounded:
  the values of a run (percentages around 100, list lengths below \<open>2^63\<close> and quotients of
  the two) are far from the overflow and underflow thresholds of binary64.
\<close>

definition rne :: "rat \<Rightarrow> int" where
  "rne x = (let n = \<lfloor>x\<rfloor>; d = x - of_int n
            in if d < 1 / 2 then n else if 1 / 2 < d then n + 1
               else if even n then n else n + 1)"

text \<open>The exponent of a positive rational: \<open>2 powi ilog2 x \<le> x < 2 powi (ilog2 x + 1)\<close>.\<close>

definition ilog2 :: "rat \<Rightarrow> int" where
  "ilog2 x = (if 1 \<le> x then bitlen \<lfloor>x\<rfloor> - 1 else - bitlen (\<lceil>1 / x\<rceil> - 1))"

definition fl :: "rat \<Rightarrow> rat" where
  "fl x = (if x = 0 then 0
           else let s = 2 powi (ilog2 \<bar>x\<bar> - 52)
                in sgn x * of_int (rne (\<bar>x\<bar> / s)) * s)"

text \<open>\<^verbatim>\<open>float(n)\<close> of a list length, \<^verbatim>\<open>a + b\<close>, \<^verbatim>\<open>a * b\<close> and \<^verbatim>\<open>a / b\<close> on floats.\<close>

definition py_float :: "nat \<Rightarrow> rat" where
  "py_float n = fl (of_nat n)"

definition fadd :: "rat \<Rightarrow> rat \<Rightarrow> rat" where
  "fadd a b = fl (a + b)"

definition fmul :: "rat \<Rightarrow> rat \<Rightarrow> rat" where
  "fmul a b = fl (a * b)"

definition fdiv :: "rat \<Rightarrow> rat \<Rightarrow> error + rat" where
  "fdiv a b = (if b = 0 then Inl (ZeroDivisionError ''float division by zero'')
               else Inr (fl (a / b)))"

section \<open>External collaborators\<close>

text \<open>
  The services of \<^verbatim>\<open>core.services\<close> and \<^verbatim>\<open>core.detectors\<close>, the child process behind
  \<^verbatim>\<open>subprocess.run\<close> and the clock are outside \<^verbatim>\<open>gui/process.py\<close>; a run takes them as
  parameters. Each collaborator either raises or returns. \<open>elapsed_text\<close> is the elapsed
  time as \<^verbatim>\<open>{time:.3f}\<close> prints it.
\<close>

datatype proc_outcome = Exited int string | LaunchFailed string

record 'img services =
  settings_load :: "string \<Rightarrow> error + pyval"
  select_detector ::
    "pyval \<Rightarrow> error + ('img \<Rightarrow> pyval \<Rightarrow> pyval \<Rightarrow> pyval \<Rightarrow> pyval \<Rightarrow> error + int list)"
  explorer_run :: "pyval \<Rightarrow> pyval \<Rightarrow> error + string list"
  img_handler_load :: "string \<Rightarrow> error + 'img list"
  img_manipulator_resize :: "'img list \<Rightarrow> pyval \<Rightarrow> pyval \<Rightarrow> error + 'img list"
  img_manipulator_combine :: "'img list \<Rightarrow> error + 'img"
  img_manipulator_slice :: "'img \<Rightarrow> int list \<Rightarrow> error + 'img list"
  img_handler_save :: "string \<Rightarrow> 'img \<Rightarrow> nat \<Rightarrow> pyval \<Rightarrow> pyval \<Rightarrow> error + string"
  postprocess_runner_run :: "string \<Rightarrow> pyval \<Rightarrow> pyval \<Rightarrow> error + unit"
  subprocess_outcome :: "string list \<Rightarrow> proc_outcome"
  elapsed_text :: string

text \<open>\<^verbatim>\<open>settings.load(key)\<close>, with the key recorded.\<close>

definition load_setting :: "'img services \<Rightarrow> string \<Rightarrow> pyval prog" where
  "load_setting sv key w =
     (settings_load sv key, w\<lparr>settings_keys := settings_keys w @ [key]\<rparr>)"

text \<open>
  \<^verbatim>\<open>detector.run(combined_img, split_height, sensitivity=, ignorable_pixels=, scan_step=)\<close>,
  with its settings arguments recorded.
\<close>

definition detector_run ::
  "('img \<Rightarrow> pyval \<Rightarrow> pyval \<Rightarrow> pyval \<Rightarrow> pyval \<Rightarrow> error + int list) \<Rightarrow>
   'img \<Rightarrow> pyval \<Rightarrow> pyval \<Rightarrow> pyval \<Rightarrow> pyval \<Rightarrow> int list prog" where
  "detector_run detector combined_img split_height sensitivity ignorable_pixels scan_step w =
     (detector combined_img split_height sensitivity ignorable_pixels scan_step,
      w\<lparr>detector_args :=
           detector_args w @ [(split_height, sensitivity, ignorable_pixels, scan_step)]\<rparr>)"

text \<open>
  \<^verbatim>\<open>subprocess.run(command, check=True, stdout=PIPE, stderr=PIPE)\<close>: every element of the
  command must be a string; a child that cannot be started raises OSError, one that exits
  with a non-zero code raises CalledProcessError.
\<close>

fun argv_of :: "pyval list \<Rightarrow> error + string list" where
  "argv_of [] = Inr []"
| "argv_of (PStr s # vs) =
     (case argv_of vs of Inl e \<Rightarrow> Inl e | Inr ss \<Rightarrow> Inr (s # ss))"
| "argv_of (v # vs) =
     Inl (TypeError (''expected str, bytes or os.PathLike object, not '' @ type_name v))"

definition subprocess_run :: "'img services \<Rightarrow> pyval list \<Rightarrow> unit prog" where
  "subprocess_run sv command =
     bind (lift (argv_of command)) (\<lambda>argv w.
       let w' = w\<lparr>launched := launched w @ [argv]\<rparr>
       in case subprocess_outcome sv argv of
            Exited rc err \<Rightarrow>
              if rc = 0 then (Inr (), w') else (Inl (CalledProcessError rc err), w')
          | LaunchFailed msg \<Rightarrow> (Inl (OSError msg), w'))"

text \<open>
  \<^verbatim>\<open>shutil.rmtree(path)\<close>: the directory and everything below it go; a missing directory
  raises.
\<close>

definition below :: "string \<Rightarrow> string \<Rightarrow> bool" where
  "below p q \<longleftrightarrow> take (length p + 1) q = p @ ''/''"

definition rmtree :: "string \<Rightarrow> unit prog" where
  "rmtree p w =
     (if p \<in> fs_dirs w
      then (Inr (), w\<lparr>fs_dirs := Set.filter (\<lambda>q. q \<noteq> p \<and> \<not> below p q) (fs_dirs w)\<rparr>)
      else (Inl (FileNotFoundError
                  (''[Errno 2] No such file or directory: '' @ squote p)), w))"

section \<open>The upscaler: \<^verbatim>\<open>run_waifu2x\<close>\<close>

definition caffe_command :: "string \<Rightarrow> pyval \<Rightarrow> kwargs \<Rightarrow> pyval list" where
  "caffe_command input_path output_path kw =
     [kwargs_get kw ''path'' (PStr []),
      PStr ''-i'', PStr input_path,
      PStr ''-o'', output_path,
      PStr ''-e'', PStr (py_str (kwargs_get kw ''type'' PNone)),
      PStr ''-m'', PStr (py_str (kwargs_get kw ''mode'' (PStr ''noise_scale''))),
      PStr ''-s'', PStr (py_str (kwargs_get kw ''scale_ratio'' (PFloat ''2.0''))),
      PStr ''-n'', PStr (py_str (kwargs_get kw ''noise_level'' (PInt 0))),
      PStr ''-p'', PStr (py_str (kwargs_get kw ''processWaifu'' (PStr ''cpu''))),
      PStr ''-c'', PStr (py_str (kwargs_get kw ''crop_size'' (PInt 128))),
      PStr ''-q'', PStr (py_str (kwargs_get kw ''output_quality'' (PInt (- 1)))),
      PStr ''-d'', PStr (py_str (kwargs_get kw ''output_depth'' (PInt 8))),
      PStr ''-b'', PStr (py_str (kwargs_get kw ''batch_size'' (PInt 1))),
      PStr ''--gpu'', PStr (py_str (kwargs_get kw ''gpu_device'' (PInt 0))),
      PStr ''-t'', PStr (py_str (kwargs_get kw ''tta'' (PInt 0)))]"

definition vulkan_command :: "string \<Rightarrow> pyval \<Rightarrow> kwargs \<Rightarrow> pyval list" where
  "vulkan_command input_path output_path kw =
     [kwargs_get kw ''path'' (PStr []),
      PStr ''-i'', PStr input_path,
      PStr ''-o'', output_path,
      PStr ''-n'', PStr (py_str (kwargs_get kw ''noise_level'' (PInt (- 1)))),
      PStr ''-s'', PStr (py_str (kwargs_get kw ''scale_ratio'' (PInt 1))),
      PStr ''-t'', PStr (py_str (kwargs_get kw ''tile_size'' (PInt 0))),
      PStr ''-m'', kwargs_get kw ''model'' PNone,
      PStr ''-g'', PStr (py_str (kwargs_get kw ''gpu_id'' (PInt 0))),
      PStr ''-x'',
      PStr ''-f'', PStr (py_str (kwargs_get kw ''output_format'' (PStr ''png'')))]"

text \<open>The handler of \<^verbatim>\<open>except subprocess.CalledProcessError as e\<close>: print and go on.\<close>

fun on_called_process_error :: "string \<Rightarrow> error \<Rightarrow> unit prog option" where
  "on_called_process_error label (CalledProcessError rc err) =
     Some (print (label @ '' '' @ err))"
| "on_called_process_error label e = None"

definition run_waifu2x ::
  "'img services \<Rightarrow> string \<Rightarrow> pyval \<Rightarrow> string \<Rightarrow> kwargs \<Rightarrow> unit prog" where
  "run_waifu2x sv input_path output_path waifu_type kw =
     (let waifu2x_path = kwargs_get kw ''path'' (PStr []) in
      bind
        (if waifu_type = ''caffe'' then
           (if truthy waifu2x_path then
              try_except (subprocess_run sv (caffe_command input_path output_path kw))
                (on_called_process_error ''Error executing caffe command:'')
            else ret ())
         else if waifu_type = ''vulkan'' then
           (if truthy waifu2x_path then
              try_except (subprocess_run sv (vulkan_command input_path output_path kw))
                (on_called_process_error ''Error executing vulkan command:'')
            else ret ())
         else ret ())
        (\<lambda>_. if waifu_type = ''caffe'' \<or> waifu_type = ''vulkan''
              then rmtree input_path else ret ()))"

section \<open>The orchestrator: \<^verbatim>\<open>GuiStitchProcess.run\<close>\<close>

text \<open>The table of step percentages (a dictionary with seven fixed keys).\<close>

record step_percentages =
  explore :: rat
  load :: rat
  combine :: rat
  detect :: rat
  slice :: rat
  save :: rat
  postprocess :: rat

definition step_percentages_init :: step_percentages where
  "step_percentages_init =
     \<lparr>explore = 5, load = 15, combine = 5, detect = 15, slice = 10, save = 30,
      postprocess = 20\<rparr>"

text \<open>\<^verbatim>\<open>percentage += weight / divisor\<close>.\<close>

definition add_step :: "rat \<Rightarrow> rat \<Rightarrow> rat \<Rightarrow> rat prog" where
  "add_step percentage weight divisor =
     bind (lift (fdiv weight divisor)) (\<lambda>inc. ret (fadd percentage inc))"

definition working :: "nat \<Rightarrow> nat \<Rightarrow> string \<Rightarrow> string" where
  "working iteration count text =
     ''Working - ['' @ str_nat iteration @ ''/'' @ str_nat count @ ''] '' @ text"

text \<open>The loop \<^verbatim>\<open>for img in imgs\<close> (lines 141 to 161); it returns the percentage.\<close>

fun save_loop ::
  "'img services \<Rightarrow> step_percentages \<Rightarrow> string \<Rightarrow> nat \<Rightarrow> nat \<Rightarrow> nat \<Rightarrow>
   'img list \<Rightarrow> nat \<Rightarrow> rat \<Rightarrow> rat prog" where
  "save_loop sv sp dir dir_iteration input_dirs_count img_count [] img_iteration percentage =
     ret percentage"
| "save_loop sv sp dir dir_iteration input_dirs_count img_count (img # imgs) img_iteration
     percentage =
     bind (load_setting sv ''output_type'') (\<lambda>img_format.
     bind (load_setting sv ''lossy_quality'') (\<lambda>quality.
     bind (lift (img_handler_save sv dir img img_iteration img_format quality))
       (\<lambda>img_file_name.
     bind (add_step percentage (save sp)
             (fmul (py_float input_dirs_count) (py_float img_count))) (\<lambda>percentage.
     bind (status_func percentage
             (working dir_iteration input_dirs_count
                (img_file_name @ '' has been successfully saved''))) (\<lambda>_.
     save_loop sv sp dir dir_iteration input_dirs_count img_count imgs
       (img_iteration + 1) percentage)))))"

text \<open>The post-process step of one directory (lines 164 to 181).\<close>

definition run_postprocess ::
  "'img services \<Rightarrow> step_percentages \<Rightarrow> string \<Rightarrow> nat \<Rightarrow> nat \<Rightarrow> nat \<Rightarrow> rat \<Rightarrow> rat prog"
  where
  "run_postprocess sv sp dir dir_iteration input_dirs_count img_count percentage =
     bind (load_setting sv ''run_postprocess'') (\<lambda>enabled.
     if truthy enabled then
       bind (status_func percentage
               (working dir_iteration input_dirs_count
                  ''Running post process on output files'')) (\<lambda>_.
       bind (load_setting sv ''postprocess_app'') (\<lambda>postprocess_app.
       bind (load_setting sv ''postprocess_args'') (\<lambda>postprocess_args.
       bind (lift (postprocess_runner_run sv dir postprocess_app postprocess_args)) (\<lambda>_.
       add_step percentage (postprocess sp)
         (fmul (py_float input_dirs_count) (py_float img_count))))))
     else ret percentage)"

text \<open>The loop \<^verbatim>\<open>for dir in input_dirs\<close> (lines 82 to 182); it returns the percentage.\<close>

fun dir_loop ::
  "'img services \<Rightarrow>
   ('img \<Rightarrow> pyval \<Rightarrow> pyval \<Rightarrow> pyval \<Rightarrow> pyval \<Rightarrow> error + int list) \<Rightarrow>
   step_percentages \<Rightarrow> nat \<Rightarrow> string list \<Rightarrow> nat \<Rightarrow> rat \<Rightarrow> rat prog" where
  "dir_loop sv detector sp input_dirs_count [] dir_iteration percentage = ret percentage"
| "dir_loop sv detector sp input_dirs_count (dir # dirs) dir_iteration percentage =
     bind (status_func percentage
             (working dir_iteration input_dirs_count
                ''Preparing & loading images Into memory'')) (\<lambda>_.
     bind (lift (img_handler_load sv dir)) (\<lambda>imgs.
     bind (load_setting sv ''enforce_type'') (\<lambda>enforce_type.
     bind (load_setting sv ''enforce_width'') (\<lambda>enforce_width.
     bind (lift (img_manipulator_resize sv imgs enforce_type enforce_width)) (\<lambda>imgs.
     bind (add_step percentage (load sp) (py_float input_dirs_count)) (\<lambda>percentage.
     bind (status_func percentage
             (working dir_iteration input_dirs_count
                ''Combining images into a single combined image'')) (\<lambda>_.
     bind (lift (img_manipulator_combine sv imgs)) (\<lambda>combined_img.
     bind (add_step percentage (combine sp) (py_float input_dirs_count)) (\<lambda>percentage.
     bind (status_func percentage
             (working dir_iteration input_dirs_count
                ''Detecting & selecting valid slicing points'')) (\<lambda>_.
     bind (load_setting sv ''split_height'') (\<lambda>split_height.
     bind (load_setting sv ''senstivity'') (\<lambda>sensitivity.
     bind (load_setting sv ''ignorable_pixels'') (\<lambda>ignorable_pixels.
     bind (load_setting sv ''scan_step'') (\<lambda>scan_step.
     bind (detector_run detector combined_img split_height sensitivity ignorable_pixels
             scan_step) (\<lambda>slice_points.
     bind (add_step percentage (detect sp) (py_float input_dirs_count)) (\<lambda>percentage.
     bind (status_func percentage
             (working dir_iteration input_dirs_count
                ''Generating sliced output images in memory'')) (\<lambda>_.
     bind (lift (img_manipulator_slice sv combined_img slice_points)) (\<lambda>imgs.
     bind (add_step percentage (slice sp) (py_float input_dirs_count)) (\<lambda>percentage.
     bind (status_func percentage
             (working dir_iteration input_dirs_count
                ''Saving output images to storage'')) (\<lambda>_.
     bind (save_loop sv sp dir dir_iteration input_dirs_count (length imgs) imgs 1
             percentage) (\<lambda>percentage.
     bind (run_postprocess sv sp dir dir_iteration input_dirs_count (length imgs)
             percentage) (\<lambda>percentage.
     dir_loop sv detector sp input_dirs_count dirs (dir_iteration + 1) percentage
     ))))))))))))))))))))))"

text \<open>
  The branches on the upscaler's file name (lines 190 to 218). Neither branch taken leaves
  \<^verbatim>\<open>waifu_type\<close> and \<^verbatim>\<open>kwargs_waifu\<close> unbound: \<open>None\<close>.
\<close>

definition waifu_kwargs :: "kwargs \<Rightarrow> error + (string \<times> kwargs) option" where
  "waifu_kwargs kw =
     (if endswith (py_str (kwargs_get kw ''waifu2x_path'' (PStr []))) ''cui.exe'' then
        (case str_add ''models/'' (kwargs_get kw ''profile'' (PStr ''cunet'')) of
           Inl e \<Rightarrow> Inl e
         | Inr model \<Rightarrow>
             Inr (Some (''caffe'', map_of
               [(''mode'', kwargs_get kw ''mode'' (PStr ''noise_scale'')),
                (''scale_ratio'', PStr (py_str (kwargs_get kw ''scale_ratio'' (PFloat ''2.0'')))),
                (''noise_level'', PStr (py_str (kwargs_get kw ''noise_level'' (PInt 0)))),
                (''crop_size'', PStr (py_str (kwargs_get kw ''crop_size'' (PInt 128)))),
                (''output_quality'',
                   PStr (py_str (kwargs_get kw ''output_quality'' (PInt (- 1))))),
                (''output_depth'', PStr (py_str (kwargs_get kw ''output_depth'' (PInt 8)))),
                (''batch_size'', PStr (py_str (kwargs_get kw ''batch_size'' (PInt 1)))),
                (''gpu_device'', PStr (py_str (kwargs_get kw ''gpu_device'' (PInt 0)))),
                (''tta'', PStr (py_str (kwargs_get kw ''tta'' (PInt 0)))),
                (''model'', PStr model),
                (''path'', PStr (py_str (kwargs_get kw ''waifu2x_path'' (PStr [])))),
                (''type'', PStr (py_str (kwargs_get kw ''output_type'' (PStr ''.png'')))),
                (''processWaifu'',
                   PStr (py_str (kwargs_get kw ''processWaifu'' (PStr ''cpu''))))])))
      else if endswith (py_str (kwargs_get kw ''waifu2x_path'' (PStr []))) ''vulkan.exe'' then
        (case str_add ''models/'' (kwargs_get kw ''profile'' (PStr ''cunet'')) of
           Inl e \<Rightarrow> Inl e
         | Inr model \<Rightarrow>
             Inr (Some (''vulkan'', map_of
               [(''noise_level'', PStr (py_str (kwargs_get kw ''noise_level'' (PInt (- 1))))),
                (''scale_ratio'', PStr (py_str (kwargs_get kw ''scale_ratio'' (PInt 1)))),
                (''tile_size'', PStr (py_str (kwargs_get kw ''tile'' (PInt 0)))),
                (''gpu_id'',
                   PStr (py_str
                     (if py_str (kwargs_get kw ''processWaifu'' (PStr ''cpu'')) = ''cpu''
                      then PInt (- 1) else PInt 0))),
                (''output_format'',
                   PStr (py_str (kwargs_get kw ''output_type'' (PStr ''.png'')))),
                (''path'', PStr (py_str (kwargs_get kw ''waifu2x_path'' (PStr [])))),
                (''model'', PStr model),
                (''type'', PStr (py_str (kwargs_get kw ''output_type'' (PStr ''.png''))))])))
      else Inr None)"

text \<open>
  Lines 190 to 219: the branches, then the call
  \<^verbatim>\<open>run_waifu2x(output_path + "/tmp", output_path, waifu_type, **kwargs_waifu)\<close>, whose
  arguments are evaluated from left to right.
\<close>

definition dispatch_waifu2x :: "'img services \<Rightarrow> kwargs \<Rightarrow> pyval \<Rightarrow> unit prog" where
  "dispatch_waifu2x sv kw output_path =
     bind (lift (waifu_kwargs kw)) (\<lambda>bound.
     bind (lift (add_str output_path ''/tmp'')) (\<lambda>tmp.
     case bound of
       None \<Rightarrow>
         raise (UnboundLocalError
           (''cannot access local variable '' @ squote ''waifu_type''
            @ '' where it is not associated with a value''))
     | Some (waifu_type, kwargs_waifu) \<Rightarrow>
         run_waifu2x sv tmp output_path waifu_type kwargs_waifu))"

definition completed :: "'img services \<Rightarrow> string" where
  "completed sv = ''Idle - Process completed in '' @ elapsed_text sv @ '' seconds''"

definition run :: "'img services \<Rightarrow> kwargs \<Rightarrow> unit prog" where
  "run sv kw =
     bind (load_setting sv ''detector_type'') (\<lambda>detector_type.
     bind (lift (select_detector sv detector_type)) (\<lambda>detector.
     let input_path = kwargs_get kw ''input_path'' (PStr []);
         output_path = kwargs_get kw ''output_path'' (PStr []);
         use_waifu2x = kwargs_get kw ''use_waifu2x'' (PBool False)
     in
     bind (load_setting sv ''run_postprocess'') (\<lambda>has_postprocess.
     let sp = (if \<not> truthy has_postprocess then step_percentages_init\<lparr>save := 50\<rparr>
               else step_percentages_init)
     in
     bind (status_func 0 ''Exploring input directory for working directories'') (\<lambda>_.
     bind (if truthy use_waifu2x then
             bind (lift (add_str output_path ''/tmp'')) (\<lambda>tmp.
               lift (explorer_run sv input_path (PStr tmp)))
           else lift (explorer_run sv input_path output_path)) (\<lambda>input_dirs.
     let input_dirs_count = length input_dirs in
     bind (status_func 0
             (''Working - ['' @ str_nat input_dirs_count
              @ ''] Working directories were found'')) (\<lambda>_.
     bind (dir_loop sv detector sp input_dirs_count input_dirs 1 (fadd 0 (explore sp)))
       (\<lambda>percentage.
     if truthy use_waifu2x then
       bind (status_func 95 ''Waifu2x-Caffe is processing'') (\<lambda>_.
       bind (dispatch_waifu2x sv kw output_path) (\<lambda>_.
       status_func 100 (completed sv)))
     else status_func 100 (completed sv))))))))"

text \<open>
  \<^verbatim>\<open>run_with_error_msgs\<close>: \<^verbatim>\<open>try: return self.run(**kwargs)\<close>, and on any exception
  \<^verbatim>\<open>status_func(0, "Idle - {0}".format(str(error)))\<close> followed by \<^verbatim>\<open>raise error\<close>.
\<close>

definition run_with_error_msgs :: "'img services \<Rightarrow> kwargs \<Rightarrow> unit prog" where
  "run_with_error_msgs sv kw =
     try_except (run sv kw)
       (\<lambda>error. Some (bind (status_func 0 (''Idle - '' @ error_text error))
                        (\<lambda>_. raise error)))"

section \<open>Example runs\<close>

text \<open>
  A world with an output tree and its staging directory, and collaborators that never
  raise: the explorer finds \<open>n\<close> directories, every directory is sliced into \<open>m\<close> images,
  the settings provider answers every key (post-processing is enabled iff \<open>pp\<close>) and the
  upscaler's child process ends as \<open>outcome\<close> says.
\<close>

definition world0 :: world where
  "world0 = \<lparr>status_log = [], settings_keys = [], detector_args = [], launched = [],
             console = [], fs_dirs = {''out'', ''out/tmp'', ''out/tmp/a''}\<rparr>"

definition example_services :: "bool \<Rightarrow> nat \<Rightarrow> nat \<Rightarrow> proc_outcome \<Rightarrow> nat services" where
  "example_services pp n m outcome =
     \<lparr>settings_load = (\<lambda>k. Inr (if k = ''run_postprocess'' then PBool pp
                                 else if k = ''senstivity'' then PInt 90
                                 else if k = ''sensitivity'' then PInt 10
                                 else PNone)),
      select_detector = (\<lambda>_. Inr (\<lambda>_ _ _ _ _. Inr [0])),
      explorer_run = (\<lambda>_ _. Inr (map (\<lambda>i. ''dir'' @ str_nat i) [1..<n + 1])),
      img_handler_load = (\<lambda>_. Inr [0]),
      img_manipulator_resize = (\<lambda>imgs _ _. Inr imgs),
      img_manipulator_combine = (\<lambda>_. Inr 0),
      img_manipulator_slice = (\<lambda>_ _. Inr (replicate m 0)),
      img_handler_save = (\<lambda>_ _ i _ _. Inr (str_nat i @ ''.png'')),
      postprocess_runner_run = (\<lambda>_ _ _. Inr ()),
      subprocess_outcome = (\<lambda>_. outcome),
      elapsed_text = ''0.000''\<rparr>"

section \<open>Evaluating a run\<close>

text \<open>The results of the floating-point operations the example runs perform.\<close>

lemma float_facts:
  "fadd 0 5 = 5"
  "py_float (Suc 0) = 1"
  "fdiv 15 1 = Inr 15"
  "fadd 5 15 = 20"
  "fdiv 5 1 = Inr 5"
  "fadd 20 5 = 25"
  "fadd 25 15 = 40"
  "fdiv 10 1 = Inr 10"
  "fadd 40 10 = 50"
  "fmul 1 1 = 1"
  "fdiv 50 1 = Inr 50"
  "fadd 50 50 = 100"
  "py_float 0 = 0"
  "fmul 1 0 = 0"
  "fdiv 20 0 = Inl (ZeroDivisionError ''float division by zero'')"
  "py_float (Suc (Suc (Suc 0))) = 3"
  "fmul 1 3 = 3"
  "fdiv 50 3 = Inr (4691249611844267 / 281474976710656)"
  "fadd 50 (4691249611844267 / 281474976710656) = 4691249611844267 / 70368744177664"
  "fadd (4691249611844267 / 70368744177664) (4691249611844267 / 281474976710656) = 2932031007402667 / 35184372088832"
  "fadd (2932031007402667 / 35184372088832) (4691249611844267 / 281474976710656) = 7036874417766401 / 70368744177664"
  "py_float (Suc (Suc 0)) = 2"
  "fmul 1 2 = 2"
  "fdiv 30 2 = Inr 15"
  "fadd 50 15 = 65"
  "fadd 65 15 = 80"
  "fdiv 20 2 = Inr 10"
  "fadd 80 10 = 90"
  "fdiv 15 2 = Inr (15 / 2)"
  "fadd 5 (15 / 2) = 25 / 2"
  "fdiv 5 2 = Inr (5 / 2)"
  "fadd (25 / 2) (5 / 2) = 15"
  "fadd 15 (15 / 2) = 45 / 2"
  "fdiv 10 2 = Inr 5"
  "fadd (45 / 2) 5 = 55 / 2"
  "fmul 2 3 = 6"
  "fdiv 50 6 = Inr (4691249611844267 / 562949953421312)"
  "fadd (55 / 2) (4691249611844267 / 562949953421312) = 5043093332732587 / 140737488355328"
  "fadd (5043093332732587 / 140737488355328) (4691249611844267 / 562949953421312) = 3107952867846827 / 70368744177664"
  "fadd (3107952867846827 / 70368744177664) (4691249611844267 / 562949953421312) = 7388718138654721 / 140737488355328"
  "fadd (7388718138654721 / 140737488355328) (15 / 2) = 8444249301319681 / 140737488355328"
  "fadd (8444249301319681 / 140737488355328) (5 / 2) = 8796093022208001 / 140737488355328"
  "fadd (8796093022208001 / 140737488355328) (15 / 2) = 70"
  "fadd 70 5 = 75"
  "fadd 75 (4691249611844267 / 562949953421312) = 5864062014805333 / 70368744177664"
  "fadd (5864062014805333 / 70368744177664) (4691249611844267 / 562949953421312) = 3225234108142933 / 35184372088832"
  "fadd (3225234108142933 / 35184372088832) (4691249611844267 / 562949953421312) = 7036874417766399 / 70368744177664"
  by code_simp+

lemma replicate_facts: "replicate 3 x = [x, x, x]" "replicate 2 x = [x, x]"
  by (simp_all add: numeral_eq_Suc)

lemma example_services_sel:
  "settings_load (example_services pp n m out) k =
     Inr (if k = ''run_postprocess'' then PBool pp
          else if k = ''senstivity'' then PInt 90
          else if k = ''sensitivity'' then PInt 10 else PNone)"
  "select_detector (example_services pp n m out) v = Inr (\<lambda>_ _ _ _ _. Inr [0])"
  "explorer_run (example_services pp n m out) a b = Inr (map (\<lambda>i. ''dir'' @ str_nat i) [1..<n + 1])"
  "img_handler_load (example_services pp n m out) d = Inr [0]"
  "img_manipulator_resize (example_services pp n m out) imgs t wd = Inr imgs"
  "img_manipulator_combine (example_services pp n m out) imgs = Inr 0"
  "img_manipulator_slice (example_services pp n m out) c pts = Inr (replicate m 0)"
  "img_handler_save (example_services pp n m out) d img i f q = Inr (str_nat i @ ''.png'')"
  "postprocess_runner_run (example_services pp n m out) d a b = Inr ()"
  "subprocess_outcome (example_services pp n m out) argv = out"
  "elapsed_text (example_services pp n m out) = ''0.000''"
  by (simp_all add: example_services_def)

lemma bind_status: "bind (status_func p msg) f w = f () (w\<lparr>status_log := status_log w @ [(p, msg)]\<rparr>)"
  by (simp add: bind_def status_func_def)

lemma bind_lift_Inr: "bind (lift (Inr x)) f w = f x w"
  by (simp add: bind_def lift_def)

lemma bind_lift_Inl: "bind (lift (Inl e)) f w = (Inl e, w)"
  by (simp add: bind_def lift_def)

lemma bind_ret: "bind (ret x) f w = f x w"
  by (simp add: bind_def ret_def)

lemma bind_raise: "bind (raise e) f w = (Inl e, w)"
  by (simp add: bind_def raise_def)

lemma bind_assoc: "bind (bind m f) g w = bind m (\<lambda>x. bind (f x) g) w"
  by (simp add: bind_def split: prod.splits sum.splits)

lemma bind_if: "bind (if c then m else m') f w = (if c then bind m f w else bind m' f w)"
  by simp

lemma bind_load: "bind (load_setting sv k) f w =
   (case settings_load sv k of Inl e \<Rightarrow> (Inl e, w\<lparr>settings_keys := settings_keys w @ [k]\<rparr>)
    | Inr v \<Rightarrow> f v (w\<lparr>settings_keys := settings_keys w @ [k]\<rparr>))"
  by (simp add: bind_def load_setting_def split: sum.splits)

lemma bind_detector: "bind (detector_run d c sh se ig st) f w =
   (case d c sh se ig st of Inl e \<Rightarrow> (Inl e, w\<lparr>detector_args := detector_args w @ [(sh, se, ig, st)]\<rparr>)
    | Inr v \<Rightarrow> f v (w\<lparr>detector_args := detector_args w @ [(sh, se, ig, st)]\<rparr>))"
  by (simp add: bind_def detector_run_def split: sum.splits)

lemmas step = bind_status bind_lift_Inr bind_lift_Inl bind_ret bind_raise bind_assoc bind_if
  bind_load bind_detector add_step_def run_postprocess_def ret_def status_func_def

lemmas run_eval = step example_services_sel kwargs_get_def world0_def
  step_percentages_init_def float_facts replicate_facts working_def completed_def
  str_nat.simps

section \<open>The error-reporting wrapper\<close>

lemma run_postprocess_zero_images:
  "fst (run (example_services True 1 0 (Exited 0 [])) Map.empty world0) =
     Inl (ZeroDivisionError ''float division by zero'')"
  "map fst (status_log (snd (run (example_services True 1 0 (Exited 0 [])) Map.empty world0))) =
     [0, 0, 5, 20, 25, 40, 50, 50]"
  unfolding run_def Let_def by (simp_all add: run_eval)

text \<open>
  C10. When the run started through \<open>run_with_error_msgs\<close> raises an exception, the wrapper
  adds exactly one status message, \<open>Idle - \<close> followed by the text of the exception, with
  percentage 0 whatever had been reported before, and raises the same exception.
\<close>

theorem run_with_error_msgs_reports_and_reraises:
  "run sv kw w = (Inl e, w') \<Longrightarrow>
   run_with_error_msgs sv kw w =
     (Inl e, w'\<lparr>status_log := status_log w' @ [(0, ''Idle - '' @ error_text e)]\<rparr>)"
  by (simp add: run_with_error_msgs_def try_except_def bind_def status_func_def raise_def)

theorem run_with_error_msgs_reports_and_reraises_witness:
  "fst (run_with_error_msgs (example_services True 1 0 (Exited 0 [])) Map.empty world0) =
     Inl (ZeroDivisionError ''float division by zero'') \<and>
   map fst (status_log (snd (run_with_error_msgs (example_services True 1 0 (Exited 0 []))
     Map.empty world0))) = [0, 0, 5, 20, 25, 40, 50, 50, 0] \<and>
   snd (last (status_log (snd (run_with_error_msgs (example_services True 1 0 (Exited 0 []))
     Map.empty world0)))) = ''Idle - float division by zero''"
proof -
  let ?r = "run (example_services True 1 0 (Exited 0 [])) Map.empty world0"
  have "?r = (Inl (ZeroDivisionError ''float division by zero''), snd ?r)"
    using run_postprocess_zero_images(1) by (simp add: prod_eq_iff)
  from run_with_error_msgs_reports_and_reraises [OF this] run_postprocess_zero_images(2)
  show ?thesis by simp
qed

section \<open>The upscale phase\<close>

lemma subprocess_run_eval:
  "subprocess_run sv command w =
     (case argv_of command of
        Inl e \<Rightarrow> (Inl e, w)
      | Inr argv \<Rightarrow>
          (case subprocess_outcome sv argv of
             Exited rc err \<Rightarrow>
               if rc = 0 then (Inr (), w\<lparr>launched := launched w @ [argv]\<rparr>)
               else (Inl (CalledProcessError rc err), w\<lparr>launched := launched w @ [argv]\<rparr>)
           | LaunchFailed msg \<Rightarrow> (Inl (OSError msg), w\<lparr>launched := launched w @ [argv]\<rparr>)))"
  by (simp add: subprocess_run_def bind_def lift_def Let_def split: sum.splits)

lemma bind_try_except:
  "bind (try_except m h) f w =
     (case m w of
        (Inl e, w') \<Rightarrow> (case h e of None \<Rightarrow> (Inl e, w') | Some k \<Rightarrow> bind k f w')
      | (Inr x, w') \<Rightarrow> f x w')"
  by (simp add: bind_def try_except_def split: prod.splits sum.splits option.splits)

lemma bind_print:
  "bind (print line) f w = f () (w\<lparr>console := console w @ [line]\<rparr>)"
  by (simp add: bind_def print_def)

lemmas waifu_eval = dispatch_waifu2x_def waifu_kwargs_def run_waifu2x_def caffe_command_def
  vulkan_command_def subprocess_run_eval bind_try_except bind_print rmtree_def below_def
  endswith_def str_int_def squote_def dquote_def raise_def Let_def

text \<open>
  C8. The claim: whatever the outcome of the child process (exit code zero, non-zero exit,
  failure to start), the staging input directory is gone once \<open>run_waifu2x\<close> returns or
  raises. The code: only \<open>CalledProcessError\<close> is caught, so when the executable cannot be
  started the OSError leaves \<open>run_waifu2x\<close> before \<open>shutil.rmtree\<close> is reached, and the
  staging directory is still there.
\<close>

theorem run_waifu2x_launch_failure_keeps_staging:
  "fst (run_waifu2x (example_services False 1 1 (LaunchFailed ''[Errno 2] No such file''))
          ''out/tmp'' (PStr ''out'') ''caffe''
          (map_of [(''path'', PStr ''waifu2x-caffe-cui.exe''), (''type'', PStr ''.png'')])
          world0) = Inl (OSError ''[Errno 2] No such file'') \<and>
   ''out/tmp'' \<in> fs_dirs (snd (run_waifu2x
          (example_services False 1 1 (LaunchFailed ''[Errno 2] No such file''))
          ''out/tmp'' (PStr ''out'') ''caffe''
          (map_of [(''path'', PStr ''waifu2x-caffe-cui.exe''), (''type'', PStr ''.png'')])
          world0))"
  by (simp add: waifu_eval run_eval)

section \<open>A run with an upscaler that is neither variant\<close>

text \<open>
  C1. The claim: with the upscale pass requested and an upscaler path that ends with neither
  \<open>cui.exe\<close> nor \<open>vulkan.exe\<close>, no upscaler is started and the run completes normally. The
  code: neither branch binds \<open>waifu_type\<close>, and the call of \<open>run_waifu2x\<close> that follows reads
  it, so the run raises UnboundLocalError after the status message of the upscale phase;
  no upscaler is started and the completion message is never sent.
\<close>

theorem run_unrecognised_upscaler_raises:
  "fst (run (example_services False 1 1 (Exited 0 []))
          (map_of [(''use_waifu2x'', PBool True), (''waifu2x_path'', PStr ''waifu2x.exe''),
                   (''output_path'', PStr ''out'')]) world0) =
     Inl (UnboundLocalError
       (''cannot access local variable '' @ squote ''waifu_type''
        @ '' where it is not associated with a value'')) \<and>
   launched (snd (run (example_services False 1 1 (Exited 0 []))
          (map_of [(''use_waifu2x'', PBool True), (''waifu2x_path'', PStr ''waifu2x.exe''),
                   (''output_path'', PStr ''out'')]) world0)) = [] \<and>
   map fst (status_log (snd (run (example_services False 1 1 (Exited 0 []))
          (map_of [(''use_waifu2x'', PBool True), (''waifu2x_path'', PStr ''waifu2x.exe''),
                   (''output_path'', PStr ''out'')]) world0))) =
     [0, 0, 5, 20, 25, 40, 50, 100, 95]"
  unfolding run_def Let_def by (simp add: waifu_eval run_eval)

section \<open>Division by zero\<close>

text \<open>
  C2. The claim: no run divides by zero; in particular a directory that yields no output
  image leaves the run to complete normally, the post-process increment included. The
  code: the post-process increment divides by
  \<open>float(input_dirs_count) * float(img_count)\<close>, so with post-processing enabled a
  directory sliced into zero images raises ZeroDivisionError once its post-process
  command has run.
\<close>

theorem run_zero_images_postprocess_raises:
  "fst (run (example_services True 1 0 (Exited 0 [])) Map.empty world0) =
     Inl (ZeroDivisionError ''float division by zero'') \<and>
   map fst (status_log (snd (run (example_services True 1 0 (Exited 0 [])) Map.empty world0))) =
     [0, 0, 5, 20, 25, 40, 50, 50] \<and>
   snd (last (status_log (snd (run (example_services True 1 0 (Exited 0 [])) Map.empty
     world0)))) = ''Working - [1/1] Running post process on output files''"
  unfolding run_def Let_def by (simp add: run_eval)

section \<open>The command lines of the two upscaler variants\<close>

lemma endswith_nonempty: "endswith s (c # suf) \<Longrightarrow> s \<noteq> []"
  by (auto simp: endswith_def)

lemma endswith_iff: "endswith s suf \<longleftrightarrow> (\<exists>pre. s = pre @ suf)"
proof
  assume "endswith s suf"
  then have "take (length s - length suf) s @ suf = s"
    by (metis append_take_drop_id endswith_def)
  then show "\<exists>pre. s = pre @ suf"
    by metis
next
  assume "\<exists>pre. s = pre @ suf"
  then show "endswith s suf"
    by (auto simp: endswith_def)
qed

lemma endswith_vulkan_not_cui:
  assumes "endswith s ''vulkan.exe''"
  shows "\<not> endswith s ''cui.exe''"
proof -
  from assms obtain pre where "s = pre @ ''vulkan.exe''"
    by (auto simp: endswith_iff)
  then show ?thesis
    by (simp add: endswith_def)
qed

lemma kwargs_get_upd:
  "kwargs_get (m(k \<mapsto> v)) k' d = (if k' = k then v else kwargs_get m k' d)"
  "kwargs_get Map.empty k' d = d"
  by (simp_all add: kwargs_get_def)

text \<open>
  C6. When the upscaler path ends with \<open>cui.exe\<close>, the argument vector handed to the child
  process is the path followed by \<open>-i\<close>, \<open>-o\<close>, \<open>-e\<close>, \<open>-m\<close>, \<open>-s\<close>, \<open>-n\<close>, \<open>-p\<close>, \<open>-c\<close>,
  \<open>-q\<close>, \<open>-d\<close>, \<open>-b\<close>, \<open>--gpu\<close>, \<open>-t\<close> with their values in this order, an omitted
  parameter taking its default (mode \<open>noise_scale\<close>, scale ratio \<open>2.0\<close>, noise level 0, crop
  size 128, output quality -1, output depth 8, batch size 1, GPU device 0, TTA 0), and the
  model parameter is \<open>models/\<close> followed by the profile, \<open>cunet\<close> when omitted.
\<close>

theorem caffe_command_line:
  assumes "endswith (py_str (kwargs_get kw ''waifu2x_path'' (PStr []))) ''cui.exe''"
    and "kwargs_get kw ''profile'' (PStr ''cunet'') = PStr profile"
  shows "launched (snd (dispatch_waifu2x sv kw (PStr out) w)) =
           launched w @
           [[py_str (kwargs_get kw ''waifu2x_path'' (PStr [])),
             ''-i'', out @ ''/tmp'',
             ''-o'', out,
             ''-e'', py_str (kwargs_get kw ''output_type'' (PStr ''.png'')),
             ''-m'', py_str (kwargs_get kw ''mode'' (PStr ''noise_scale'')),
             ''-s'', py_str (kwargs_get kw ''scale_ratio'' (PFloat ''2.0'')),
             ''-n'', py_str (kwargs_get kw ''noise_level'' (PInt 0)),
             ''-p'', py_str (kwargs_get kw ''processWaifu'' (PStr ''cpu'')),
             ''-c'', py_str (kwargs_get kw ''crop_size'' (PInt 128)),
             ''-q'', py_str (kwargs_get kw ''output_quality'' (PInt (- 1))),
             ''-d'', py_str (kwargs_get kw ''output_depth'' (PInt 8)),
             ''-b'', py_str (kwargs_get kw ''batch_size'' (PInt 1)),
             ''--gpu'', py_str (kwargs_get kw ''gpu_device'' (PInt 0)),
             ''-t'', py_str (kwargs_get kw ''tta'' (PInt 0))]]"
    and "\<exists>kwargs_waifu. waifu_kwargs kw = Inr (Some (''caffe'', kwargs_waifu)) \<and>
           kwargs_waifu ''model'' = Some (PStr (''models/'' @ profile))"
proof -
  from assms(1) have ne: "py_str (kwargs_get kw ''waifu2x_path'' (PStr [])) \<noteq> []"
    by (rule endswith_nonempty)
  show "\<exists>kwargs_waifu. waifu_kwargs kw = Inr (Some (''caffe'', kwargs_waifu)) \<and>
           kwargs_waifu ''model'' = Some (PStr (''models/'' @ profile))"
    using assms by (simp add: waifu_kwargs_def)
  show "launched (snd (dispatch_waifu2x sv kw (PStr out) w)) =
           launched w @
           [[py_str (kwargs_get kw ''waifu2x_path'' (PStr [])),
             ''-i'', out @ ''/tmp'',
             ''-o'', out,
             ''-e'', py_str (kwargs_get kw ''output_type'' (PStr ''.png'')),
             ''-m'', py_str (kwargs_get kw ''mode'' (PStr ''noise_scale'')),
             ''-s'', py_str (kwargs_get kw ''scale_ratio'' (PFloat ''2.0'')),
             ''-n'', py_str (kwargs_get kw ''noise_level'' (PInt 0)),
             ''-p'', py_str (kwargs_get kw ''processWaifu'' (PStr ''cpu'')),
             ''-c'', py_str (kwargs_get kw ''crop_size'' (PInt 128)),
             ''-q'', py_str (kwargs_get kw ''output_quality'' (PInt (- 1))),
             ''-d'', py_str (kwargs_get kw ''output_depth'' (PInt 8)),
             ''-b'', py_str (kwargs_get kw ''batch_size'' (PInt 1)),
             ''--gpu'', py_str (kwargs_get kw ''gpu_device'' (PInt 0)),
             ''-t'', py_str (kwargs_get kw ''tta'' (PInt 0))]]"
    using assms ne
    by (simp add: dispatch_waifu2x_def waifu_kwargs_def run_waifu2x_def caffe_command_def
          subprocess_run_eval try_except_def print_def bind_def rmtree_def
          kwargs_get_upd ret_def lift_def
          split: proc_outcome.splits)
qed

end
